theory Spec2Isabelle
  imports Complex_Main
begin

section \<open>Python values that \<open>serve\<close> handles\<close>

subsection \<open>Floats\<close>

text \<open>
  \<open>max_cache_memory_frac\<close> is a Python \<open>float\<close>, that is an IEEE 754 binary64 value: a
  finite number \<open>m * 2 ^ e\<close> (\<open>Finite m e\<close>), an infinity or a NaN. The sign of a zero
  plays no role in a comparison, so \<open>Finite 0 e\<close> stands for both zeros.
\<close>

datatype pyfloat = Finite int int | PosInf | NegInf | NaN

text \<open>The pairs \<open>(m, e)\<close> that a binary64 can hold: 53 bits of significand, exponents
  from the subnormal range up to the largest finite value.\<close>

definition is_float64 :: "pyfloat \<Rightarrow> bool" where
  "is_float64 x =
     (case x of
        Finite m e \<Rightarrow> - (2 ^ 53) < m \<and> m < 2 ^ 53 \<and> - 1074 \<le> e \<and> e \<le> 971
      | PosInf \<Rightarrow> True
      | NegInf \<Rightarrow> True
      | NaN \<Rightarrow> True)"

text \<open>\<open>m * 2 ^ e\<close> brought to the exponent \<open>k \<le> e\<close>, as an integer multiple of \<open>2 ^ k\<close>.\<close>

definition scale2 :: "int \<Rightarrow> int \<Rightarrow> int \<Rightarrow> int" where
  "scale2 m e k = m * 2 ^ nat (e - k)"

text \<open>Python's \<open>x <= y\<close> on floats: false as soon as one side is a NaN, exact otherwise.\<close>

fun float_le :: "pyfloat \<Rightarrow> pyfloat \<Rightarrow> bool" where
  "float_le NaN _ = False"
| "float_le _ NaN = False"
| "float_le NegInf _ = True"
| "float_le _ PosInf = True"
| "float_le PosInf _ = False"
| "float_le _ NegInf = False"
| "float_le (Finite m1 e1) (Finite m2 e2) =
     (scale2 m1 e1 (min e1 e2) \<le> scale2 m2 e2 (min e1 e2))"

text \<open>The rational number a finite float denotes.\<close>

definition dyadic :: "int \<Rightarrow> int \<Rightarrow> rat" where
  "dyadic m e =
     (if 0 \<le> e then of_int (m * 2 ^ nat e) else of_int m / of_int (2 ^ nat (- e)))"

definition float_value :: "pyfloat \<Rightarrow> rat option" where
  "float_value x = (case x of Finite m e \<Rightarrow> Some (dyadic m e) | PosInf \<Rightarrow> None
                    | NegInf \<Rightarrow> None | NaN \<Rightarrow> None)"

text \<open>
  The literals \<open>0.2\<close> and \<open>0.7\<close> of line 36 are the binary64 values nearest to the
  decimals: \<open>0x1.999999999999ap-3\<close> and \<open>0x1.6666666666666p-1\<close>.
\<close>

definition lit_0_2 :: pyfloat where
  "lit_0_2 = Finite 3602879701896397 (- 54)"

definition lit_0_7 :: pyfloat where
  "lit_0_7 = Finite 3152519739159347 (- 52)"

text \<open>The decimal reading of the range: a number \<open>q\<close> with \<open>1/5 \<le> q \<le> 7/10\<close>.\<close>

definition within_decimal_bounds :: "pyfloat \<Rightarrow> bool" where
  "within_decimal_bounds x =
     (case float_value x of None \<Rightarrow> False | Some q \<Rightarrow> 1 / 5 \<le> q \<and> q \<le> 7 / 10)"

text \<open>An optional float as the caller may pass it, and the range as the specification
  words it: the fraction is absent, or a number between 0.2 and 0.7, bounds included.\<close>

definition float64_option :: "pyfloat option \<Rightarrow> bool" where
  "float64_option f = (case f of None \<Rightarrow> True | Some x \<Rightarrow> is_float64 x)"

definition frac_acceptable :: "pyfloat option \<Rightarrow> bool" where
  "frac_acceptable f = (case f of None \<Rightarrow> True | Some x \<Rightarrow> within_decimal_bounds x)"

subsection \<open>Exceptions, strings and the result dictionary\<close>

text \<open>
  Every \<open>raise\<close> of \<open>serve\<close> is a \<open>RuntimeError\<close> with a message. A collaborator may
  raise anything: \<open>OtherException cls msg\<close> is an exception of another class.
\<close>

datatype py_error = RuntimeError string | OtherException string string

text \<open>A Python \<open>str\<close> is kept as its UTF-8 bytes; the en dash U+2013 of the message of
  line 38 is three of them.\<close>

definition en_dash :: string where
  "en_dash = [CHR 0xE2, CHR 0x80, CHR 0x93]"

definition range_message :: string where
  "range_message =
     ''Maximum fraction of memory to use by Redis for caching is outside of recommended range (0.2''
     @ en_dash @ ''0.7).''"

definition invalid_message :: "string \<Rightarrow> string" where
  "invalid_message mid = ''Model '' @ mid @ '' is not valid or not found.''"

definition no_url_message :: string where
  "no_url_message = ''No URL found. Service unsuccessful.''"

text \<open>The values stored in the returned dictionary: strings, the server handle
  \<open>mdl.scl\<close>, a list of strings, or \<open>None\<close>.\<close>

datatype 'srv pyval = PyStr string | PySrv 'srv | PyList "string list" | PyNone

text \<open>A Python \<open>dict\<close> literal, in insertion order.\<close>

type_synonym 'srv pydict = "(string \<times> 'srv pyval) list"

section \<open>Collaborators\<close>

text \<open>\<open>OutputSource\<close> of \<open>store.utils\<close>: the three members that \<open>serve\<close> uses.\<close>

datatype OutputSource = LOCAL_ONLY | CLOUD_ONLY | CACHE_ONLY

text \<open>
  The attributes of an \<open>ErsiliaModel\<close> object that \<open>serve\<close> reads: \<open>model_id\<close>,
  \<open>url\<close>, \<open>scl\<close> and \<open>session._session_dir\<close>.
\<close>

record 'srv mdl_handle =
  model_id :: string
  url :: "string option"
  scl :: 'srv
  session_dir :: string

text \<open>
  The classes \<open>ErsiliaModel\<close> and \<open>SetupRedis\<close> are imported, not defined, by
  \<open>serve.py\<close>; they are parameters of the model. Each field is one call site of
  \<open>serve\<close>: the two constructors (lines 56 and 64), \<open>mdl.is_valid()\<close> (66),
  \<open>mdl.serve(track_runs=...)\<close> (71), \<open>mdl.get_apis()\<close> (79) and
  \<open>redis_setup._is_amenable()\<close> (95). Any of them may raise. A method of \<open>mdl\<close> may
  change the attributes of the object, which \<open>serve\<close> reads again after the call: each
  of the three methods returns the handle as the call leaves it, next to its result.
  \<open>serve\<close> makes each call at most once, so a function of the arguments is as general
  as a stateful object.
\<close>

record ('srv, 'redis) collaborators =
  ErsiliaModel :: "string \<Rightarrow> OutputSource option \<Rightarrow> int option \<Rightarrow> bool \<Rightarrow> pyfloat option
                     \<Rightarrow> py_error + 'srv mdl_handle"
  SetupRedis :: "bool \<Rightarrow> pyfloat option \<Rightarrow> py_error + 'redis"
  is_valid :: "'srv mdl_handle \<Rightarrow> py_error + bool \<times> 'srv mdl_handle"
  mdl_serve :: "'srv mdl_handle \<Rightarrow> string option \<Rightarrow> py_error + 'srv mdl_handle"
  get_apis :: "'srv mdl_handle \<Rightarrow> py_error + string list \<times> 'srv mdl_handle"
  is_amenable :: "'redis \<Rightarrow> py_error + bool \<times> string"

text \<open>What a call of \<open>serve\<close> does to the world outside: the calls it makes, in
  order, and the process-wide session registry.\<close>

datatype event =
    NewModel string "OutputSource option" "int option" bool "pyfloat option"
  | NewRedis bool "pyfloat option"
  | IsValid
  | ServeModel "string option"
  | RegisterSession string string
  | GetApis
  | IsAmenable

record world =
  trace :: "event list"
  sessions :: "string \<rightharpoonup> string"

definition emit :: "event \<Rightarrow> world \<Rightarrow> world" where
  "emit ev w = w\<lparr>trace := trace w @ [ev]\<rparr>"

text \<open>
  Modelled from the spec: \<open>register_model_session\<close> of \<open>utils.session\<close> is imported,
  not defined, by \<open>serve.py\<close>. Section 4.5: an upsert into process-wide state keyed by
  model identifier, the last registration winning.
\<close>

definition register_model_session :: "string \<Rightarrow> string \<Rightarrow> world \<Rightarrow> world" where
  "register_model_session mid dir w =
     (emit (RegisterSession mid dir) w)\<lparr>sessions := (sessions w)(mid \<mapsto> dir)\<rparr>"

section \<open>\<open>serve\<close>\<close>

text \<open>The parameters of \<open>serve\<close> (lines 6 to 16).\<close>

record serve_args =
  model :: string
  port :: "int option"
  track :: bool
  tracking_use_case :: string
  enable_local_cache :: bool
  local_cache_only :: bool
  cloud_cache_only :: bool
  cache_only :: bool
  max_cache_memory_frac :: "pyfloat option"

text \<open>Lines 35 to 39: the guard on \<open>max_cache_memory_frac\<close>.\<close>

definition check_max_cache_memory_frac :: "pyfloat option \<Rightarrow> py_error + unit" where
  "check_max_cache_memory_frac f =
     (case f of
        None \<Rightarrow> Inr ()
      | Some x \<Rightarrow>
          if \<not> (float_le lit_0_2 x \<and> float_le x lit_0_7)
          then Inl (RuntimeError range_message)
          else Inr ())"

text \<open>Lines 41 to 54: the three variables \<open>output_source\<close>, \<open>enable_local_cache\<close>
  and \<open>cache_status\<close> as the three \<open>if\<close> statements leave them.\<close>

record cache_vars =
  var_output_source :: "OutputSource option"
  var_enable_local_cache :: bool
  var_cache_status :: string

definition resolve_cache :: "bool \<Rightarrow> bool \<Rightarrow> bool \<Rightarrow> bool \<Rightarrow> cache_vars" where
  "resolve_cache enable_local local_only cloud_only cache_only_flag =
     (let v0 = \<lparr>var_output_source = None, var_enable_local_cache = enable_local,
                var_cache_status = ''Disabled''\<rparr>;
          v1 = (if local_only
                then \<lparr>var_output_source = Some LOCAL_ONLY, var_enable_local_cache = True,
                      var_cache_status = ''Local only''\<rparr>
                else v0);
          v2 = (if cloud_only
                then v1\<lparr>var_output_source := Some CLOUD_ONLY,
                        var_cache_status := ''Cloud only''\<rparr>
                else v1);
          v3 = (if cache_only_flag
                then \<lparr>var_output_source = Some CACHE_ONLY, var_enable_local_cache = True,
                      var_cache_status = ''Hybrid (local & cloud)''\<rparr>
                else v2)
      in v3)"

text \<open>Lines 81 to 86: the loop appends to \<open>additional_apis\<close> every name other than
  \<open>"run"\<close>; the list is left at \<open>None\<close> when \<open>apis == ["run"]\<close>.\<close>

fun collect_additional_apis :: "string list \<Rightarrow> string list \<Rightarrow> string list" where
  "collect_additional_apis [] additional = additional"
| "collect_additional_apis (api # apis) additional =
     collect_additional_apis apis (if api \<noteq> ''run'' then additional @ [api] else additional)"

definition additional_apis_of :: "string list \<Rightarrow> string list option" where
  "additional_apis_of apis =
     (if apis \<noteq> [''run''] then Some (collect_additional_apis apis []) else None)"

text \<open>Lines 89 to 99: the returned dictionary, read from the handle as
  \<open>mdl.get_apis()\<close> left it.\<close>

definition result_dict ::
  "'srv mdl_handle \<Rightarrow> string \<Rightarrow> bool \<Rightarrow> bool \<Rightarrow> string list option \<Rightarrow> 'srv pydict" where
  "result_dict mdl cache_status amenable track_flag additional_apis =
     [(''Model ID'', PyStr (model_id mdl)),
      (''URL'', (case url mdl of None \<Rightarrow> PyNone | Some u \<Rightarrow> PyStr u)),
      (''SRV'', PySrv (scl mdl)),
      (''Session'', PyStr (session_dir mdl)),
      (''Cache Fetching Mode'', PyStr cache_status),
      (''Local Cache'', PyStr (if amenable then ''Enabled'' else ''Disabled'')),
      (''Tracking'', PyStr (if track_flag then ''Enabled'' else ''Disabled'')),
      (''Default API'', PyStr ''run''),
      (''Additional APIs'',
         (case additional_apis of None \<Rightarrow> PyNone | Some names \<Rightarrow> PyList names))]"

text \<open>
  The whole function, statement by statement. The result is the raised exception or the
  returned dictionary, together with the world as the call leaves it. A call is recorded
  in the trace before its outcome is known. The handle goes through four states: \<open>mdl\<close>
  as constructed, \<open>checked\<close> after \<open>is_valid()\<close> (read by line 67), \<open>served\<close>
  after \<open>serve()\<close> (read by lines 73 and 76) and \<open>listed\<close> after \<open>get_apis()\<close>
  (read by lines 90 to 93).
\<close>

definition serve ::
  "('srv, 'redis) collaborators \<Rightarrow> world \<Rightarrow> serve_args \<Rightarrow> (py_error + 'srv pydict) \<times> world" where
  "serve c w a =
     (case check_max_cache_memory_frac (max_cache_memory_frac a) of
        Inl err \<Rightarrow> (Inl err, w)
      | Inr _ \<Rightarrow>
     (let v = resolve_cache (enable_local_cache a) (local_cache_only a)
                (cloud_cache_only a) (cache_only a);
          w1 = emit (NewModel (model a) (var_output_source v) (port a)
                       (var_enable_local_cache v) (max_cache_memory_frac a)) w
      in (case ErsiliaModel c (model a) (var_output_source v) (port a)
                 (var_enable_local_cache v) (max_cache_memory_frac a) of
        Inl err \<Rightarrow> (Inl err, w1)
      | Inr mdl \<Rightarrow>
     (let w2 = emit (NewRedis (var_enable_local_cache v) (max_cache_memory_frac a)) w1
      in (case SetupRedis c (var_enable_local_cache v) (max_cache_memory_frac a) of
        Inl err \<Rightarrow> (Inl err, w2)
      | Inr redis_setup \<Rightarrow>
     (let w3 = emit IsValid w2
      in (case is_valid c mdl of
        Inl err \<Rightarrow> (Inl err, w3)
      | Inr (ok, checked) \<Rightarrow>
     (if \<not> ok then (Inl (RuntimeError (invalid_message (model_id checked))), w3)
      else
     (let track_runs = (if track a then Some (tracking_use_case a) else None);
          w4 = emit (ServeModel track_runs) w3
      in (case mdl_serve c checked track_runs of
        Inl err \<Rightarrow> (Inl err, w4)
      | Inr served \<Rightarrow>
     (case url served of
        None \<Rightarrow> (Inl (RuntimeError no_url_message), w4)
      | Some _ \<Rightarrow>
     (let w5 = register_model_session (model_id served) (session_dir served) w4;
          w6 = emit GetApis w5
      in (case get_apis c served of
        Inl err \<Rightarrow> (Inl err, w6)
      | Inr (apis, listed) \<Rightarrow>
     (let additional_apis = additional_apis_of apis;
          w7 = emit IsAmenable w6
      in (case is_amenable c redis_setup of
        Inl err \<Rightarrow> (Inl err, w7)
      | Inr amenable \<Rightarrow>
          (Inr (result_dict listed (var_cache_status v) (fst amenable) (track a)
                  additional_apis), w7))))))))))))))))"

text \<open>The values that the call computes before it reaches the collaborators.\<close>

abbreviation cache_vars_of :: "serve_args \<Rightarrow> cache_vars" where
  "cache_vars_of a \<equiv>
     resolve_cache (enable_local_cache a) (local_cache_only a) (cloud_cache_only a)
       (cache_only a)"

abbreviation track_runs_of :: "serve_args \<Rightarrow> string option" where
  "track_runs_of a \<equiv> (if track a then Some (tracking_use_case a) else None)"

text \<open>The two constructor calls of lines 56 to 64, with the arguments \<open>serve\<close> gives
  them.\<close>

definition constructed_model ::
  "('srv, 'redis) collaborators \<Rightarrow> serve_args \<Rightarrow> py_error + 'srv mdl_handle" where
  "constructed_model c a =
     ErsiliaModel c (model a) (var_output_source (cache_vars_of a)) (port a)
       (var_enable_local_cache (cache_vars_of a)) (max_cache_memory_frac a)"

definition constructed_redis ::
  "('srv, 'redis) collaborators \<Rightarrow> serve_args \<Rightarrow> py_error + 'redis" where
  "constructed_redis c a =
     SetupRedis c (var_enable_local_cache (cache_vars_of a)) (max_cache_memory_frac a)"

definition construction_events :: "serve_args \<Rightarrow> event list" where
  "construction_events a =
     [NewModel (model a) (var_output_source (cache_vars_of a)) (port a)
        (var_enable_local_cache (cache_vars_of a)) (max_cache_memory_frac a),
      NewRedis (var_enable_local_cache (cache_vars_of a)) (max_cache_memory_frac a)]"

section \<open>The cache mode resolver as the specification words it\<close>

text \<open>
  Section 3 of the specification: a cache source is one of unset, local-only, cloud-only
  and hybrid, and a resolution holds a source, the local-cache-enabled flag and a status
  label. Section 4.2 gives the resolver as a start value and three guarded steps applied
  in a fixed order; section 9 suggests an ordered list of (predicate, resulting state)
  pairs, which is the form taken here.
\<close>

datatype CacheSource = Unset | LocalOnly | CloudOnly | Hybrid

record CacheResolution =
  source :: CacheSource
  local_cache_enabled :: bool
  status_label :: string

definition spec_resolver_steps ::
  "bool \<Rightarrow> bool \<Rightarrow> bool \<Rightarrow> (bool \<times> (CacheResolution \<Rightarrow> CacheResolution)) list" where
  "spec_resolver_steps local_only cloud_only cache_only_flag =
     [(local_only, \<lambda>r. r\<lparr>source := LocalOnly, local_cache_enabled := True,
                            status_label := ''Local only''\<rparr>),
      (cloud_only, \<lambda>r. r\<lparr>source := CloudOnly, status_label := ''Cloud only''\<rparr>),
      (cache_only_flag, \<lambda>r. r\<lparr>source := Hybrid, local_cache_enabled := True,
                                 status_label := ''Hybrid (local & cloud)''\<rparr>)]"

definition spec_apply_step ::
  "CacheResolution \<Rightarrow> bool \<times> (CacheResolution \<Rightarrow> CacheResolution) \<Rightarrow> CacheResolution" where
  "spec_apply_step r step = (if fst step then snd step r else r)"

definition spec_cache_mode_resolver :: "bool \<Rightarrow> bool \<Rightarrow> bool \<Rightarrow> bool \<Rightarrow> CacheResolution" where
  "spec_cache_mode_resolver baseline local_only cloud_only cache_only_flag =
     foldl spec_apply_step
       \<lparr>source = Unset, local_cache_enabled = baseline, status_label = ''Disabled''\<rparr>
       (spec_resolver_steps local_only cloud_only cache_only_flag)"

text \<open>How the variables of the code are read as a resolution of the specification:
  \<open>None\<close> is the unset source, \<open>CACHE_ONLY\<close> the hybrid one.\<close>

definition cache_source_of :: "OutputSource option \<Rightarrow> CacheSource" where
  "cache_source_of s =
     (case s of None \<Rightarrow> Unset | Some LOCAL_ONLY \<Rightarrow> LocalOnly
      | Some CLOUD_ONLY \<Rightarrow> CloudOnly | Some CACHE_ONLY \<Rightarrow> Hybrid)"

definition resolution_of :: "cache_vars \<Rightarrow> CacheResolution" where
  "resolution_of v =
     \<lparr>source = cache_source_of (var_output_source v),
      local_cache_enabled = var_enable_local_cache v,
      status_label = var_cache_status v\<rparr>"

section \<open>Sample collaborators\<close>

text \<open>
  A substitute implementation of the collaborators, as section 9 of the specification
  proposes for testing: it reports the validity, the URL, the operation list and the
  amenability it is given, keeps the requested identifier as the model identifier, and
  its methods change nothing but the URL that \<open>serve()\<close> sets.
\<close>

definition sample_handle :: "string \<Rightarrow> string mdl_handle" where
  "sample_handle mid =
     \<lparr>model_id = mid, url = None, scl = ''pulled_docker'', session_dir = ''/tmp/session_0''\<rparr>"

definition sample_collaborators ::
  "bool \<Rightarrow> string option \<Rightarrow> string list \<Rightarrow> bool \<Rightarrow> (string, unit) collaborators" where
  "sample_collaborators valid served_url apis amenable =
     \<lparr>ErsiliaModel = (\<lambda>mid src prt cache maxmemory. Inr (sample_handle mid)),
      SetupRedis = (\<lambda>cache maxmemory. Inr ()),
      is_valid = (\<lambda>mdl. Inr (valid, mdl)),
      mdl_serve = (\<lambda>mdl track_runs. Inr (mdl\<lparr>url := served_url\<rparr>)),
      get_apis = (\<lambda>mdl. Inr (apis, mdl)),
      is_amenable = (\<lambda>redis_setup. Inr (amenable, ''redis''))\<rparr>"

text \<open>
  The docstring of \<open>serve\<close> lets \<open>model\<close> be the eos identifier or the slug of a model.
  These collaborators differ from the sample ones in the constructor only, which gives
  every handle the identifier \<open>eos9zzz\<close> whatever name was asked for; the handle reports
  invalid.
\<close>

definition resolving_collaborators :: "(string, unit) collaborators" where
  "resolving_collaborators =
     (sample_collaborators False None [''run''] True)
       \<lparr>ErsiliaModel := (\<lambda>mid src prt cache maxmemory. Inr (sample_handle ''eos9zzz''))\<rparr>"

definition sample_world :: world where
  "sample_world = \<lparr>trace = [], sessions = Map.empty\<rparr>"

definition sample_args :: serve_args where
  "sample_args =
     \<lparr>model = ''eos3b5e'', port = None, track = False, tracking_use_case = ''local'',
      enable_local_cache = True, local_cache_only = False, cloud_cache_only = False,
      cache_only = False, max_cache_memory_frac = None\<rparr>"

section \<open>Floats: the guard of line 36 is the decimal range\<close>

text \<open>
  Comparing finite floats is comparing the rationals they denote. No binary64 lies
  between \<open>1/5\<close> and the literal \<open>0.2\<close>, which is a little above it, nor between the
  literal \<open>0.7\<close>, a little below \<open>7/10\<close>, and \<open>7/10\<close>: on floats the guard decides the
  decimal range exactly.
\<close>

lemma dyadic_powi: "dyadic m e = of_int m * 2 powi e"
  by (simp add: dyadic_def power_int_def field_simps)

lemma dyadic_scale:
  assumes "k \<le> e"
  shows "dyadic m e = of_int (scale2 m e k) * (2::rat) powi k"
proof -
  have "(2::rat) powi e = 2 powi (e - k) * 2 powi k"
    using power_int_add [of "2::rat" "e - k" k] by simp
  moreover have "(2::rat) powi (e - k) = 2 ^ nat (e - k)"
    using assms by (simp add: power_int_def)
  ultimately show ?thesis
    by (simp add: dyadic_powi scale2_def)
qed

lemma float_le_Finite:
  "float_le (Finite m1 e1) (Finite m2 e2) = (dyadic m1 e1 \<le> dyadic m2 e2)"
proof -
  define k where "k = min e1 e2"
  have pos: "(0::rat) < 2 powi k" by simp
  have "dyadic m1 e1 = of_int (scale2 m1 e1 k) * (2::rat) powi k"
    by (rule dyadic_scale) (simp add: k_def)
  moreover have "dyadic m2 e2 = of_int (scale2 m2 e2 k) * (2::rat) powi k"
    by (rule dyadic_scale) (simp add: k_def)
  ultimately show ?thesis
    using pos by (simp add: k_def [symmetric])
qed

lemma dyadic_small:
  assumes m: "m < 2 ^ p" and e: "e \<le> - int q" 
  shows "dyadic m e < 2 ^ p / 2 ^ q"
proof (cases "0 < m")
  case False
  then have "dyadic m e \<le> 0"
    by (simp add: dyadic_def divide_le_0_iff mult_le_0_iff)
  moreover have "(0::rat) < 2 ^ p / 2 ^ q" by simp
  ultimately show ?thesis by linarith
next
  case True
  have q: "q \<le> nat (- e)" using e by linarith
  have "(2::rat) ^ q \<le> 2 ^ nat (- e)"
    using q by (simp add: power_increasing)
  then have "rat_of_int m / 2 ^ nat (- e) \<le> rat_of_int m / 2 ^ q"
    using True by (simp add: frac_le)
  moreover have "rat_of_int m < 2 ^ p"
    using m of_int_less_iff [of m "2 ^ p", where ?'a = rat] by simp
  then have "rat_of_int m / 2 ^ q < 2 ^ p / 2 ^ q"
    by (simp add: divide_strict_right_mono)
  moreover have "dyadic m e = rat_of_int m / 2 ^ nat (- e)"
    using e by (cases "e = 0") (simp_all add: dyadic_def)
  ultimately show ?thesis by linarith
qed

lemma no_double_below_lit_0_2:
  assumes m: "m < 2 ^ 53"
  shows "(dyadic 3602879701896397 (- 54) \<le> dyadic m e) = (1 / 5 \<le> dyadic m e)"
proof (cases "- 55 \<le> e")
  case True
  define n where "n = scale2 m e (- 55)"
  have d: "dyadic m e = of_int n / 2 ^ 55"
    using dyadic_scale [OF True, of m] by (simp add: n_def power_int_def field_simps)
  have "(dyadic 3602879701896397 (- 54) \<le> dyadic m e) = (7205759403792794 \<le> n)"
    unfolding d by (simp add: dyadic_def field_simps)
  also have "\<dots> = (36028797018963968 \<le> 5 * n)" by arith
  also have "\<dots> = (rat_of_int 36028797018963968 \<le> rat_of_int (5 * n))"
    by (simp only: of_int_le_iff)
  also have "\<dots> = (1 / 5 \<le> dyadic m e)"
    unfolding d by (simp add: field_simps) 
  finally show ?thesis .
next
  case False
  then have "e \<le> - int 56" by simp
  from dyadic_small [OF m this] have "dyadic m e < 1 / 8" by simp
  then show ?thesis by (simp add: dyadic_def)
qed

lemma no_double_above_lit_0_7:
  assumes m: "m < 2 ^ 53"
  shows "(dyadic m e \<le> dyadic 3152519739159347 (- 52)) = (dyadic m e \<le> 7 / 10)"
proof (cases "- 53 \<le> e")
  case True
  define n where "n = scale2 m e (- 53)"
  have d: "dyadic m e = of_int n / 2 ^ 53"
    using dyadic_scale [OF True, of m] by (simp add: n_def power_int_def field_simps)
  have "(dyadic m e \<le> dyadic 3152519739159347 (- 52)) = (n \<le> 6305039478318694)"
    unfolding d by (simp add: dyadic_def field_simps)
  also have "\<dots> = (10 * n \<le> 63050394783186944)" by arith
  also have "\<dots> = (rat_of_int (10 * n) \<le> rat_of_int 63050394783186944)"
    by (simp only: of_int_le_iff)
  also have "\<dots> = (dyadic m e \<le> 7 / 10)"
    unfolding d by (simp add: field_simps) 
  finally show ?thesis .
next
  case False
  then have "e \<le> - int 54" by simp
  from dyadic_small [OF m this] have "dyadic m e < 1 / 2" by simp
  then show ?thesis by (simp add: dyadic_def)
qed

lemma guard_is_decimal_range:
  assumes "is_float64 x"
  shows "(float_le lit_0_2 x \<and> float_le x lit_0_7) = within_decimal_bounds x"
proof (cases x)
  case (Finite m e)
  with assms have m: "m < 2 ^ 53" by (simp add: is_float64_def)
  show ?thesis
    unfolding Finite lit_0_2_def lit_0_7_def within_decimal_bounds_def float_value_def
    by (simp only: float_le_Finite no_double_below_lit_0_2 [OF m]
          no_double_above_lit_0_7 [OF m] pyfloat.case option.case)
qed (simp_all add: lit_0_2_def lit_0_7_def within_decimal_bounds_def float_value_def)

section \<open>How a call of \<open>serve\<close> ends\<close>

text \<open>
  All three \<open>raise\<close> statements of \<open>serve\<close> raise a \<open>RuntimeError\<close>; the message tells
  which of the three failures it is. The specification names them ConfigurationError
  (the range message), ModelNotFoundError (the invalid-model message) and
  ServeFailedError (the missing-URL message).
\<close>

lemma messages_distinct:
  "range_message \<noteq> no_url_message"
  "invalid_message mid \<noteq> range_message"
  "invalid_message mid \<noteq> no_url_message"
  by (simp_all add: range_message_def no_url_message_def invalid_message_def)

lemma check_passes_iff:
  "(check_max_cache_memory_frac f = Inr ()) =
     (case f of None \<Rightarrow> True | Some x \<Rightarrow> float_le lit_0_2 x \<and> float_le x lit_0_7)"
  by (simp add: check_max_cache_memory_frac_def split: option.split)

lemma serve_returns:
  assumes "serve c w a = (Inr r, w')"
  obtains mdl redis_setup checked served apis listed amenable where
    "check_max_cache_memory_frac (max_cache_memory_frac a) = Inr ()"
    "ErsiliaModel c (model a)
       (var_output_source (resolve_cache (enable_local_cache a) (local_cache_only a)
          (cloud_cache_only a) (cache_only a)))
       (port a)
       (var_enable_local_cache (resolve_cache (enable_local_cache a) (local_cache_only a)
          (cloud_cache_only a) (cache_only a)))
       (max_cache_memory_frac a) = Inr mdl"
    "SetupRedis c
       (var_enable_local_cache (resolve_cache (enable_local_cache a) (local_cache_only a)
          (cloud_cache_only a) (cache_only a)))
       (max_cache_memory_frac a) = Inr redis_setup"
    "is_valid c mdl = Inr (True, checked)"
    "mdl_serve c checked (if track a then Some (tracking_use_case a) else None) = Inr served"
    "url served \<noteq> None"
    "get_apis c served = Inr (apis, listed)"
    "is_amenable c redis_setup = Inr amenable"
    "r = result_dict listed
           (var_cache_status (resolve_cache (enable_local_cache a) (local_cache_only a)
              (cloud_cache_only a) (cache_only a)))
           (fst amenable) (track a) (additional_apis_of apis)"
  using assms unfolding serve_def Let_def
  by (auto split: sum.splits if_splits option.splits)

lemma check_acceptable:
  assumes "float64_option f"
  shows "(check_max_cache_memory_frac f = Inr ()) = frac_acceptable f"
  using assms
  by (cases f) (simp_all add: check_passes_iff frac_acceptable_def float64_option_def
      guard_is_decimal_range)

lemma check_outcomes:
  "check_max_cache_memory_frac f = Inr () \<or>
   check_max_cache_memory_frac f = Inl (RuntimeError range_message)"
  by (simp add: check_max_cache_memory_frac_def split: option.split)

lemma serve_at_rejected_fraction:
  assumes "check_max_cache_memory_frac (max_cache_memory_frac a) \<noteq> Inr ()"
  shows "serve c w a = (Inl (RuntimeError range_message), w)"
  using assms check_outcomes [of "max_cache_memory_frac a"]
  by (auto simp: serve_def)

lemma serve_past_guard:
  assumes "check_max_cache_memory_frac (max_cache_memory_frac a) = Inr ()"
  shows "\<exists>rest. trace (snd (serve c w a)) =
           trace w @ NewModel (model a) (var_output_source (cache_vars_of a)) (port a)
                      (var_enable_local_cache (cache_vars_of a)) (max_cache_memory_frac a)
                    # rest"
  using assms unfolding serve_def Let_def
  by (auto simp: emit_def register_model_session_def construction_events_def
      split: sum.splits option.splits)

lemma serve_at_invalid_handle:
  assumes "check_max_cache_memory_frac (max_cache_memory_frac a) = Inr ()"
    and "constructed_model c a = Inr mdl"
    and "constructed_redis c a = Inr redis_setup"
    and "is_valid c mdl = Inr (False, checked)"
  shows "serve c w a =
           (Inl (RuntimeError (invalid_message (model_id checked))),
            w\<lparr>trace := trace w @ construction_events a @ [IsValid]\<rparr>)"
  using assms unfolding serve_def Let_def
  by (simp add: constructed_model_def constructed_redis_def construction_events_def emit_def)

lemma serve_at_missing_url:
  assumes "check_max_cache_memory_frac (max_cache_memory_frac a) = Inr ()"
    and "constructed_model c a = Inr mdl"
    and "constructed_redis c a = Inr redis_setup"
    and "is_valid c mdl = Inr (True, checked)"
    and "mdl_serve c checked (track_runs_of a) = Inr served"
    and "url served = None"
  shows "serve c w a =
           (Inl (RuntimeError no_url_message),
            w\<lparr>trace := trace w @ construction_events a @ [IsValid, ServeModel (track_runs_of a)]\<rparr>)"
  using assms unfolding serve_def Let_def
  by (simp add: constructed_model_def constructed_redis_def construction_events_def emit_def)

lemma serve_returns_world:
  assumes "serve c w a = (Inr r, w')"
  obtains mdl checked served where
    "constructed_model c a = Inr mdl"
    "is_valid c mdl = Inr (True, checked)"
    "mdl_serve c checked (track_runs_of a) = Inr served"
    "w' = w\<lparr>trace := trace w @ construction_events a @
              [IsValid, ServeModel (track_runs_of a),
               RegisterSession (model_id served) (session_dir served), GetApis, IsAmenable],
            sessions := (sessions w)(model_id served \<mapsto> session_dir served)\<rparr>"
  using assms unfolding serve_def Let_def
  by (auto simp: constructed_model_def constructed_redis_def construction_events_def emit_def
        register_model_session_def
      split: sum.splits if_splits option.splits)

text \<open>
  Lines 90 to 93 read the attributes again when the dictionary is built: the values
  returned are those of the handle as \<open>mdl.get_apis()\<close> left it.
\<close>

lemma returned_attributes:
  assumes "serve c w a = (Inr r, w')"
  shows "\<exists>mdl checked served apis listed.
           constructed_model c a = Inr mdl
         \<and> is_valid c mdl = Inr (True, checked)
         \<and> mdl_serve c checked (track_runs_of a) = Inr served
         \<and> get_apis c served = Inr (apis, listed)
         \<and> map_of r ''Model ID'' = Some (PyStr (model_id listed))
         \<and> map_of r ''URL'' = Some (case url listed of None \<Rightarrow> PyNone | Some u \<Rightarrow> PyStr u)
         \<and> map_of r ''SRV'' = Some (PySrv (scl listed))
         \<and> map_of r ''Session'' = Some (PyStr (session_dir listed))"
  using assms
  by (elim serve_returns) (auto simp: constructed_model_def result_dict_def)

text \<open>The loop of lines 84 to 86 is a filter.\<close>

lemma collect_additional_apis_filter:
  "collect_additional_apis apis additional = additional @ filter (\<lambda>api. api \<noteq> ''run'') apis"
  by (induction apis arbitrary: additional) simp_all

lemma additional_apis_of_filter:
  "additional_apis_of apis =
     (if apis = [''run''] then None else Some (filter (\<lambda>api. api \<noteq> ''run'') apis))"
  by (simp add: additional_apis_of_def collect_additional_apis_filter)

text \<open>What the sample collaborators make of a call that reaches its end.\<close>

lemma sample_serve_returns:
  "serve (sample_collaborators True (Some u) apis amenable) sample_world a =
     (if check_max_cache_memory_frac (max_cache_memory_frac a) = Inr ()
      then (Inr (result_dict ((sample_handle (model a))\<lparr>url := Some u\<rparr>)
                  (var_cache_status (cache_vars_of a)) amenable (track a)
                  (additional_apis_of apis)),
            \<lparr>trace = construction_events a @
                [IsValid, ServeModel (track_runs_of a),
                 RegisterSession (model a) ''/tmp/session_0'', GetApis, IsAmenable],
             sessions = [model a \<mapsto> ''/tmp/session_0'']\<rparr>)
      else (Inl (RuntimeError range_message), sample_world))"
  using check_outcomes [of "max_cache_memory_frac a"]
  unfolding serve_def Let_def
  by (auto simp: sample_collaborators_def sample_handle_def sample_world_def emit_def
      register_model_session_def construction_events_def)

lemma sample_serve_plain:
  "serve (sample_collaborators True (Some u) apis amenable) sample_world
     (sample_args\<lparr>track := t, enable_local_cache := e, local_cache_only := l\<rparr>) =
     (Inr (result_dict ((sample_handle ''eos3b5e'')\<lparr>url := Some u\<rparr>)
             (if l then ''Local only'' else ''Disabled'') amenable t
             (additional_apis_of apis)),
      \<lparr>trace = [NewModel ''eos3b5e'' (if l then Some LOCAL_ONLY else None) None (l \<or> e) None,
                NewRedis (l \<or> e) None, IsValid,
                ServeModel (if t then Some ''local'' else None),
                RegisterSession ''eos3b5e'' ''/tmp/session_0'', GetApis, IsAmenable],
       sessions = [''eos3b5e'' \<mapsto> ''/tmp/session_0'']\<rparr>)"
  by (simp add: sample_serve_returns)
     (simp add: sample_args_def check_max_cache_memory_frac_def resolve_cache_def
        construction_events_def)

section \<open>The claims\<close>

text \<open>
  C1. For every combination of the baseline flag and the three toggles, the variables
  \<open>output_source\<close>, \<open>enable_local_cache\<close> and \<open>cache_status\<close> of lines 41 to 54 are
  what the start value and the three guarded steps of section 4.2 give when applied in the
  order local-only, cloud-only, cache-only, a later step overwriting an earlier one and no
  combination being an error. With all three toggles the outcome is the hybrid source,
  the local cache enabled and the status "Hybrid (local & cloud)"; with none the source is
  unset, the status "Disabled" and the flag is the caller's.
\<close>

theorem cache_resolution_last_write_wins:
  "resolution_of (resolve_cache baseline local_only cloud_only cache_only_flag)
     = spec_cache_mode_resolver baseline local_only cloud_only cache_only_flag
   \<and> resolve_cache baseline True True True
     = \<lparr>var_output_source = Some CACHE_ONLY, var_enable_local_cache = True,
        var_cache_status = ''Hybrid (local & cloud)''\<rparr>
   \<and> resolve_cache baseline False False False
     = \<lparr>var_output_source = None, var_enable_local_cache = baseline,
        var_cache_status = ''Disabled''\<rparr>"
  by (simp add: resolve_cache_def spec_cache_mode_resolver_def spec_resolver_steps_def
        spec_apply_step_def resolution_of_def cache_source_of_def)

text \<open>
  C2. A call whose \<open>max_cache_memory_frac\<close> is a float (or absent) passes the guard of
  lines 35 to 39 exactly if the fraction is absent or lies between 0.2 and 0.7, both
  bounds included. A call that passes goes on to construct the model handle; any other
  call ends in the \<open>RuntimeError\<close> whose message gives the recommended range, which is
  the error the specification calls ConfigurationError.
\<close>

theorem memory_fraction_validation:
  assumes "float64_option (max_cache_memory_frac a)"
  shows "(check_max_cache_memory_frac (max_cache_memory_frac a) = Inr ())
           = frac_acceptable (max_cache_memory_frac a)
       \<and> (if frac_acceptable (max_cache_memory_frac a)
          then \<exists>rest. trace (snd (serve c w a)) =
                 trace w @ NewModel (model a) (var_output_source (cache_vars_of a)) (port a)
                            (var_enable_local_cache (cache_vars_of a))
                            (max_cache_memory_frac a)
                          # rest
          else serve c w a = (Inl (RuntimeError range_message), w))"
  using check_acceptable [OF assms] serve_at_rejected_fraction [of a c w]
    serve_past_guard [of a c w]
  by auto

theorem memory_fraction_validation_witness:
  "float64_option (Some lit_0_2)
   \<and> check_max_cache_memory_frac (Some lit_0_2) = Inr ()
   \<and> float64_option (Some (Finite 3 (- 2)))
   \<and> serve (sample_collaborators True None [] False) sample_world
        (sample_args\<lparr>max_cache_memory_frac := Some (Finite 3 (- 2))\<rparr>)
      = (Inl (RuntimeError range_message), sample_world)"
proof -
  let ?lo = "sample_args\<lparr>max_cache_memory_frac := Some lit_0_2\<rparr>"
  let ?out = "sample_args\<lparr>max_cache_memory_frac := Some (Finite 3 (- 2))\<rparr>"
  have lo: "float64_option (max_cache_memory_frac ?lo)"
    by (simp add: float64_option_def is_float64_def lit_0_2_def)
  have out: "float64_option (max_cache_memory_frac ?out)"
    by (simp add: float64_option_def is_float64_def)
  have lo_ok: "frac_acceptable (max_cache_memory_frac ?lo)"
    by (simp add: frac_acceptable_def within_decimal_bounds_def float_value_def lit_0_2_def
        dyadic_def)
  have out_bad: "\<not> frac_acceptable (max_cache_memory_frac ?out)"
    by (simp add: frac_acceptable_def within_decimal_bounds_def float_value_def dyadic_def)
  from memory_fraction_validation [OF lo, where c = "sample_collaborators True None [] False" and w = sample_world]
    lo_ok
  have "check_max_cache_memory_frac (Some lit_0_2) = Inr ()" by simp
  moreover from memory_fraction_validation [OF out, where c = "sample_collaborators True None [] False"
      and w = sample_world] out_bad
  have "serve (sample_collaborators True None [] False) sample_world ?out
          = (Inl (RuntimeError range_message), sample_world)" by simp
  ultimately show ?thesis using lo out by simp
qed

text \<open>
  C3. When the guard passes, both constructors return, the handle is valid and
  \<open>mdl.serve\<close> returns but leaves \<open>mdl.url\<close> at \<open>None\<close>, the call ends in the
  \<open>RuntimeError\<close> "No URL found. Service unsuccessful." (the ServeFailedError of the
  specification): no dictionary is returned, the last call made is the one to
  \<open>mdl.serve\<close>, so no session is registered, and the registry is as it was.
\<close>

theorem serve_without_url_fails:
  assumes "check_max_cache_memory_frac (max_cache_memory_frac a) = Inr ()"
    and "constructed_model c a = Inr mdl"
    and "constructed_redis c a = Inr redis_setup"
    and "is_valid c mdl = Inr (True, checked)"
    and "mdl_serve c checked (track_runs_of a) = Inr served"
    and "url served = None"
  shows "serve c w a =
           (Inl (RuntimeError ''No URL found. Service unsuccessful.''),
            w\<lparr>trace := trace w @ construction_events a @ [IsValid, ServeModel (track_runs_of a)]\<rparr>)
         \<and> sessions (snd (serve c w a)) = sessions w"
  using serve_at_missing_url [OF assms, where w = w] by (simp add: no_url_message_def)

theorem serve_without_url_fails_witness:
  "serve (sample_collaborators True None [''run''] True) sample_world sample_args =
     (Inl (RuntimeError ''No URL found. Service unsuccessful.''),
      \<lparr>trace = [NewModel ''eos3b5e'' None None True None, NewRedis True None, IsValid,
                ServeModel None],
       sessions = Map.empty\<rparr>)"
proof -
  let ?c = "sample_collaborators True None [''run''] True"
  have 1: "check_max_cache_memory_frac (max_cache_memory_frac sample_args) = Inr ()"
    by (simp add: sample_args_def check_max_cache_memory_frac_def)
  have 2: "constructed_model ?c sample_args = Inr (sample_handle ''eos3b5e'')"
    by (simp add: constructed_model_def sample_collaborators_def sample_args_def)
  have 3: "constructed_redis ?c sample_args = Inr ()"
    by (simp add: constructed_redis_def sample_collaborators_def)
  have 4: "is_valid ?c (sample_handle ''eos3b5e'') = Inr (True, sample_handle ''eos3b5e'')"
    by (simp add: sample_collaborators_def)
  have 5: "mdl_serve ?c (sample_handle ''eos3b5e'') (track_runs_of sample_args)
             = Inr (sample_handle ''eos3b5e'')"
    by (simp add: sample_collaborators_def sample_handle_def)
  have 6: "url (sample_handle ''eos3b5e'') = None"
    by (simp add: sample_handle_def)
  from serve_without_url_fails [OF 1 2 3 4 5 6, where w = sample_world] show ?thesis
    by (simp add: construction_events_def sample_args_def sample_world_def resolve_cache_def)
qed

text \<open>
  C4, as the claim words it, does not hold: the message of line 67 names \<open>mdl.model_id\<close>,
  the identifier that the handle holds when \<open>is_valid()\<close> has returned, and not the
  \<open>model\<close> argument of the call. A call for \<open>my-slug\<close> whose handle holds \<open>eos9zzz\<close>
  ends in "Model eos9zzz is not valid or not found.".
\<close>

theorem requested_identifier_not_named:
  "check_max_cache_memory_frac (max_cache_memory_frac (sample_args\<lparr>model := ''my-slug''\<rparr>))
     = Inr ()
   \<and> constructed_model resolving_collaborators (sample_args\<lparr>model := ''my-slug''\<rparr>)
     = Inr (sample_handle ''eos9zzz'')
   \<and> constructed_redis resolving_collaborators (sample_args\<lparr>model := ''my-slug''\<rparr>) = Inr ()
   \<and> is_valid resolving_collaborators (sample_handle ''eos9zzz'')
     = Inr (False, sample_handle ''eos9zzz'')
   \<and> fst (serve resolving_collaborators sample_world (sample_args\<lparr>model := ''my-slug''\<rparr>))
     = Inl (RuntimeError ''Model eos9zzz is not valid or not found.'')
   \<and> fst (serve resolving_collaborators sample_world (sample_args\<lparr>model := ''my-slug''\<rparr>))
     \<noteq> Inl (RuntimeError ''Model my-slug is not valid or not found.'')"
  by (simp add: serve_def Let_def resolving_collaborators_def sample_collaborators_def
      sample_args_def sample_handle_def check_max_cache_memory_frac_def constructed_model_def
      constructed_redis_def invalid_message_def)

text \<open>
  C4, amended. When the guard passes, both constructors return and \<open>mdl.is_valid()\<close> is
  false, the call ends in the \<open>RuntimeError\<close> "Model ... is not valid or not found." (the
  ModelNotFoundError of the specification) that names \<open>mdl.model_id\<close> as the handle holds
  it after \<open>is_valid()\<close>. The last call made is \<open>is_valid\<close>: the server is not started
  and no session is registered.
\<close>

theorem invalid_model_not_served:
  assumes "check_max_cache_memory_frac (max_cache_memory_frac a) = Inr ()"
    and "constructed_model c a = Inr mdl"
    and "constructed_redis c a = Inr redis_setup"
    and "is_valid c mdl = Inr (False, checked)"
  shows "serve c w a =
           (Inl (RuntimeError (''Model '' @ model_id checked @ '' is not valid or not found.'')),
            w\<lparr>trace := trace w @ construction_events a @ [IsValid]\<rparr>)
         \<and> sessions (snd (serve c w a)) = sessions w"
  using serve_at_invalid_handle [OF assms, where w = w] by (simp add: invalid_message_def)

theorem invalid_model_not_served_witness:
  "serve resolving_collaborators sample_world (sample_args\<lparr>model := ''retro-slug''\<rparr>) =
     (Inl (RuntimeError ''Model eos9zzz is not valid or not found.''),
      \<lparr>trace = [NewModel ''retro-slug'' None None True None, NewRedis True None, IsValid],
       sessions = Map.empty\<rparr>)"
proof -
  let ?c = "resolving_collaborators"
  let ?a = "sample_args\<lparr>model := ''retro-slug''\<rparr>"
  have 1: "check_max_cache_memory_frac (max_cache_memory_frac ?a) = Inr ()"
    by (simp add: sample_args_def check_max_cache_memory_frac_def)
  have 2: "constructed_model ?c ?a = Inr (sample_handle ''eos9zzz'')"
    by (simp add: constructed_model_def resolving_collaborators_def sample_collaborators_def)
  have 3: "constructed_redis ?c ?a = Inr ()"
    by (simp add: constructed_redis_def resolving_collaborators_def sample_collaborators_def)
  have 4: "is_valid ?c (sample_handle ''eos9zzz'') = Inr (False, sample_handle ''eos9zzz'')"
    by (simp add: resolving_collaborators_def sample_collaborators_def)
  from invalid_model_not_served [OF 1 2 3 4, where w = sample_world] show ?thesis
    by (simp add: construction_events_def sample_args_def sample_world_def resolve_cache_def
        sample_handle_def)
qed

text \<open>
  C5. In the dictionary of a call that returns, "Additional APIs" is \<open>None\<close> when
  \<open>mdl.get_apis()\<close> is exactly \<open>["run"]\<close>, and otherwise the list of the names other
  than \<open>"run"\<close> in the order of \<open>mdl.get_apis()\<close>; "Default API" is \<open>"run"\<close>.
\<close>

theorem additional_apis_reported:
  assumes "serve c w a = (Inr r, w')"
  shows "\<exists>mdl checked served apis listed.
           constructed_model c a = Inr mdl
         \<and> is_valid c mdl = Inr (True, checked)
         \<and> mdl_serve c checked (track_runs_of a) = Inr served
         \<and> get_apis c served = Inr (apis, listed)
         \<and> map_of r ''Additional APIs''
             = Some (if apis = [''run''] then PyNone
                     else PyList (filter (\<lambda>api. api \<noteq> ''run'') apis))
         \<and> map_of r ''Default API'' = Some (PyStr ''run'')"
  using assms
  by (elim serve_returns)
     (auto simp: constructed_model_def result_dict_def additional_apis_of_filter)

theorem additional_apis_reported_witness:
  "\<exists>r w'. serve (sample_collaborators True (Some ''http://localhost:3000'') [''run'', ''info'']
                  True) sample_world (sample_args\<lparr>track := False, enable_local_cache := True, local_cache_only := False\<rparr>)
            = (Inr r, w')
         \<and> map_of r ''Additional APIs'' = Some (PyList [''info''])
         \<and> map_of r ''Default API'' = Some (PyStr ''run'')"
proof -
  let ?c = "sample_collaborators True (Some ''http://localhost:3000'') [''run'', ''info''] True"
  let ?a = "sample_args\<lparr>track := False, enable_local_cache := True, local_cache_only := False\<rparr>"
  obtain r w' where ret: "serve ?c sample_world ?a = (Inr r, w')"
    by (simp add: sample_serve_plain)
  from additional_apis_reported [OF ret] obtain apis where
    "get_apis ?c = (\<lambda>mdl. Inr (apis, mdl))"
    "map_of r ''Additional APIs''
       = Some (if apis = [''run''] then PyNone else PyList (filter (\<lambda>api. api \<noteq> ''run'') apis))"
    "map_of r ''Default API'' = Some (PyStr ''run'')"
    by (auto simp: sample_collaborators_def)
  then have "map_of r ''Additional APIs'' = Some (PyList [''info''])"
    and "map_of r ''Default API'' = Some (PyStr ''run'')"
    by (auto simp: sample_collaborators_def fun_eq_iff)
  with ret show ?thesis by blast
qed

text \<open>
  C6. In the dictionary of a call that returns, "Tracking" is "Enabled" exactly if
  \<open>track\<close> was true, whatever \<open>tracking_use_case\<close> is; and \<open>mdl.serve\<close> was called once,
  with \<open>track_runs\<close> equal to \<open>tracking_use_case\<close> if \<open>track\<close> was true and to \<open>None\<close>
  if not.
\<close>

theorem tracking_follows_track_flag:
  assumes "serve c w a = (Inr r, w')"
  shows "map_of r ''Tracking'' = Some (PyStr (if track a then ''Enabled'' else ''Disabled''))
       \<and> (map_of r ''Tracking'' = Some (PyStr ''Enabled'')) = track a
       \<and> (\<exists>mdl checked served.
             constructed_model c a = Inr mdl
           \<and> is_valid c mdl = Inr (True, checked)
           \<and> mdl_serve c checked (if track a then Some (tracking_use_case a) else None)
               = Inr served
           \<and> trace w' = trace w @ construction_events a @
               [IsValid, ServeModel (if track a then Some (tracking_use_case a) else None),
                RegisterSession (model_id served) (session_dir served), GetApis, IsAmenable])"
proof -
  from assms
  have "map_of r ''Tracking'' = Some (PyStr (if track a then ''Enabled'' else ''Disabled''))"
    by (elim serve_returns) (simp add: result_dict_def)
  moreover from assms
  have "\<exists>mdl checked served.
             constructed_model c a = Inr mdl
           \<and> is_valid c mdl = Inr (True, checked)
           \<and> mdl_serve c checked (if track a then Some (tracking_use_case a) else None)
               = Inr served
           \<and> trace w' = trace w @ construction_events a @
               [IsValid, ServeModel (if track a then Some (tracking_use_case a) else None),
                RegisterSession (model_id served) (session_dir served), GetApis, IsAmenable]"
  proof (elim serve_returns_world)
    fix mdl checked served
    assume "constructed_model c a = Inr mdl"
      and "is_valid c mdl = Inr (True, checked)"
      and "mdl_serve c checked (track_runs_of a) = Inr served"
      and "w' = w\<lparr>trace := trace w @ construction_events a @
              [IsValid, ServeModel (track_runs_of a),
               RegisterSession (model_id served) (session_dir served), GetApis, IsAmenable],
            sessions := (sessions w)(model_id served \<mapsto> session_dir served)\<rparr>"
    then show ?thesis
      by (intro exI [of _ mdl] exI [of _ checked] exI [of _ served]) simp
  qed
  ultimately show ?thesis by simp
qed

theorem tracking_follows_track_flag_witness:
  "\<exists>r w'. serve (sample_collaborators True (Some ''http://localhost:3000'') [''run''] True)
             sample_world (sample_args\<lparr>track := True, enable_local_cache := True, local_cache_only := False\<rparr>)
            = (Inr r, w')
         \<and> map_of r ''Tracking'' = Some (PyStr ''Enabled'')
         \<and> trace w' = [NewModel ''eos3b5e'' None None True None, NewRedis True None, IsValid,
                        ServeModel (Some ''local''),
                        RegisterSession ''eos3b5e'' ''/tmp/session_0'', GetApis, IsAmenable]"
proof -
  let ?c = "sample_collaborators True (Some ''http://localhost:3000'') [''run''] True"
  let ?a = "sample_args\<lparr>track := True, enable_local_cache := True, local_cache_only := False\<rparr>"
  obtain r w' where ret: "serve ?c sample_world ?a = (Inr r, w')"
    by (simp add: sample_serve_plain)
  from tracking_follows_track_flag [OF ret] obtain served where
    "map_of r ''Tracking'' = Some (PyStr ''Enabled'')"
    "mdl_serve ?c (sample_handle ''eos3b5e'') (Some ''local'') = Inr served"
    "trace w' = trace sample_world @ construction_events ?a @
       [IsValid, ServeModel (Some ''local''),
        RegisterSession (model_id served) (session_dir served), GetApis, IsAmenable]"
    by (auto simp: constructed_model_def sample_collaborators_def sample_args_def)
  then have "map_of r ''Tracking'' = Some (PyStr ''Enabled'')"
    and "trace w' = [NewModel ''eos3b5e'' None None True None, NewRedis True None, IsValid,
                     ServeModel (Some ''local''),
                     RegisterSession ''eos3b5e'' ''/tmp/session_0'', GetApis, IsAmenable]"
    by (auto simp: sample_collaborators_def sample_handle_def sample_world_def
        construction_events_def sample_args_def resolve_cache_def)
  with ret show ?thesis by blast
qed

text \<open>
  C7. In the dictionary of a call that returns, "Local Cache" is "Enabled" exactly if the
  first component of \<open>redis_setup._is_amenable()\<close> is true, and "Cache Fetching Mode" is
  the status of the resolver. The flag \<open>enable_local_cache\<close> as resolved does not decide
  "Local Cache": there is a returning call with the flag on, the mode "Local only" and
  "Local Cache" at "Disabled"; the dictionary shows both.
\<close>

theorem local_cache_reports_amenability:
  "(serve c w a = (Inr r, w') \<longrightarrow>
      (\<exists>redis_setup amenable.
          constructed_redis c a = Inr redis_setup
        \<and> is_amenable c redis_setup = Inr amenable
        \<and> (map_of r ''Local Cache'' = Some (PyStr ''Enabled'')) = fst amenable
        \<and> map_of r ''Local Cache''
            = Some (PyStr (if fst amenable then ''Enabled'' else ''Disabled''))
        \<and> map_of r ''Cache Fetching Mode'' = Some (PyStr (var_cache_status (cache_vars_of a)))))
   \<and> (\<exists>(c0 :: (string, unit) collaborators) w0 a0 r0 w0'.
          serve c0 w0 a0 = (Inr r0, w0')
        \<and> var_enable_local_cache (cache_vars_of a0)
        \<and> map_of r0 ''Cache Fetching Mode'' = Some (PyStr ''Local only'')
        \<and> map_of r0 ''Local Cache'' = Some (PyStr ''Disabled''))"
proof (intro conjI impI)
  assume "serve c w a = (Inr r, w')"
  then show "\<exists>redis_setup amenable.
          constructed_redis c a = Inr redis_setup
        \<and> is_amenable c redis_setup = Inr amenable
        \<and> (map_of r ''Local Cache'' = Some (PyStr ''Enabled'')) = fst amenable
        \<and> map_of r ''Local Cache''
            = Some (PyStr (if fst amenable then ''Enabled'' else ''Disabled''))
        \<and> map_of r ''Cache Fetching Mode'' = Some (PyStr (var_cache_status (cache_vars_of a)))"
    by (elim serve_returns) (auto simp: constructed_redis_def result_dict_def)
next
  let ?c = "sample_collaborators True (Some ''http://localhost:3000'') [''run''] False"
  let ?a = "sample_args\<lparr>track := False, enable_local_cache := True, local_cache_only := True\<rparr>"
  let ?r = "result_dict ((sample_handle ''eos3b5e'')\<lparr>url := Some ''http://localhost:3000''\<rparr>)
              ''Local only'' False False (additional_apis_of [''run''])"
  have "\<exists>w0'. serve ?c sample_world ?a = (Inr ?r, w0')"
    by (simp add: sample_serve_plain)
  moreover have "var_enable_local_cache (cache_vars_of ?a)"
    by (simp add: resolve_cache_def sample_args_def)
  moreover have "map_of ?r ''Cache Fetching Mode'' = Some (PyStr ''Local only'')"
    and "map_of ?r ''Local Cache'' = Some (PyStr ''Disabled'')"
    by (simp_all add: result_dict_def)
  ultimately show "\<exists>(c0 :: (string, unit) collaborators) w0 a0 r0 w0'.
          serve c0 w0 a0 = (Inr r0, w0')
        \<and> var_enable_local_cache (cache_vars_of a0)
        \<and> map_of r0 ''Cache Fetching Mode'' = Some (PyStr ''Local only'')
        \<and> map_of r0 ''Local Cache'' = Some (PyStr ''Disabled'')"
    by blast
qed

theorem local_cache_reports_amenability_witness:
  "\<exists>r w'. serve (sample_collaborators True (Some ''http://localhost:3000'') [''run''] False)
             sample_world (sample_args\<lparr>track := False, enable_local_cache := True, local_cache_only := True\<rparr>)
            = (Inr r, w')
         \<and> var_enable_local_cache
             (cache_vars_of (sample_args\<lparr>track := False, enable_local_cache := True, local_cache_only := True\<rparr>))
         \<and> map_of r ''Cache Fetching Mode'' = Some (PyStr ''Local only'')
         \<and> map_of r ''Local Cache'' = Some (PyStr ''Disabled'')"
proof -
  let ?c = "sample_collaborators True (Some ''http://localhost:3000'') [''run''] False"
  let ?a = "sample_args\<lparr>track := False, enable_local_cache := True, local_cache_only := True\<rparr>"
  obtain r w' where ret: "serve ?c sample_world ?a = (Inr r, w')"
    by (simp add: sample_serve_plain)
  have on: "var_enable_local_cache (cache_vars_of ?a)"
    by (simp add: resolve_cache_def sample_args_def)
  from local_cache_reports_amenability [of ?c sample_world ?a r w'] ret obtain amenable where
    "is_amenable ?c () = Inr amenable"
    "map_of r ''Local Cache'' = Some (PyStr (if fst amenable then ''Enabled'' else ''Disabled''))"
    "map_of r ''Cache Fetching Mode'' = Some (PyStr (var_cache_status (cache_vars_of ?a)))"
    by auto
  then have "map_of r ''Cache Fetching Mode'' = Some (PyStr ''Local only'')"
    and "map_of r ''Local Cache'' = Some (PyStr ''Disabled'')"
    by (auto simp: sample_collaborators_def resolve_cache_def sample_args_def)
  with ret on show ?thesis by blast
qed

text \<open>
  C8. A call whose \<open>max_cache_memory_frac\<close> is present and outside the range 0.2 to 0.7
  ends in the range error with the world untouched: no model handle is constructed, the
  cache backend is not set up, the model is not served and no session is registered.
\<close>

theorem fraction_rejected_before_effects:
  assumes "max_cache_memory_frac a = Some x"
    and "is_float64 x"
    and "\<not> within_decimal_bounds x"
  shows "serve c w a = (Inl (RuntimeError range_message), w)
         \<and> trace (snd (serve c w a)) = trace w
         \<and> sessions (snd (serve c w a)) = sessions w"
proof -
  have "check_max_cache_memory_frac (max_cache_memory_frac a) \<noteq> Inr ()"
    using assms check_acceptable [of "max_cache_memory_frac a"]
    by (simp add: float64_option_def frac_acceptable_def)
  from serve_at_rejected_fraction [OF this, where c = c and w = w] show ?thesis by simp
qed

theorem fraction_rejected_before_effects_witness:
  "is_float64 (Finite 1 (- 3)) \<and> \<not> within_decimal_bounds (Finite 1 (- 3))
   \<and> serve (sample_collaborators True (Some ''http://localhost:3000'') [''run''] True)
        sample_world (sample_args\<lparr>max_cache_memory_frac := Some (Finite 1 (- 3))\<rparr>)
      = (Inl (RuntimeError range_message), sample_world)"
proof -
  let ?a = "sample_args\<lparr>max_cache_memory_frac := Some (Finite 1 (- 3))\<rparr>"
  have 1: "max_cache_memory_frac ?a = Some (Finite 1 (- 3))" by simp
  have 2: "is_float64 (Finite 1 (- 3))" by (simp add: is_float64_def)
  have 3: "\<not> within_decimal_bounds (Finite 1 (- 3))"
    by (simp add: within_decimal_bounds_def float_value_def dyadic_def)
  from fraction_rejected_before_effects [OF 1 2 3, where w = sample_world
      and c = "sample_collaborators True (Some ''http://localhost:3000'') [''run''] True"] 2 3
  show ?thesis by simp
qed

text \<open>
  C9. In the dictionary of a call that returns, when \<open>mdl.get_apis()\<close> holds no name
  other than \<open>"run"\<close>, "Additional APIs" is \<open>None\<close> if the list is exactly \<open>["run"]\<close>
  and the empty list in every other case (as for \<open>["run", "run"]\<close>, or for the list
  without entries); the two values differ.
\<close>

theorem only_run_entries_give_empty_list:
  assumes "serve c w a = (Inr r, w')"
    and "constructed_model c a = Inr mdl"
    and "is_valid c mdl = Inr (True, checked)"
    and "mdl_serve c checked (track_runs_of a) = Inr served"
    and "get_apis c served = Inr (apis, listed)"
    and "set apis \<subseteq> {''run''}"
  shows "map_of r ''Additional APIs''
           = Some (if apis = [''run''] then PyNone else PyList [])
       \<and> (apis \<noteq> [''run''] \<longrightarrow> map_of r ''Additional APIs'' = Some (PyList [])
                                \<and> map_of r ''Additional APIs'' \<noteq> Some PyNone)
       \<and> (apis = [''run''] \<longrightarrow> map_of r ''Additional APIs'' = Some PyNone
                                \<and> map_of r ''Additional APIs'' \<noteq> Some (PyList []))"
proof -
  have "filter (\<lambda>api. api \<noteq> ''run'') apis = []"
    using assms(6) by (auto simp: filter_empty_conv)
  then have "additional_apis_of apis = (if apis = [''run''] then None else Some [])"
    by (simp add: additional_apis_of_filter)
  with assms(1-5) show ?thesis
    by (elim serve_returns) (auto simp: constructed_model_def result_dict_def)
qed

theorem only_run_entries_give_empty_list_witness:
  "(\<exists>r w'. serve (sample_collaborators True (Some ''http://localhost:3000'') [''run'', ''run'']
                   True) sample_world
               (sample_args\<lparr>track := False, enable_local_cache := True,
                  local_cache_only := False\<rparr>)
             = (Inr r, w')
          \<and> set [''run'', ''run''] \<subseteq> {''run''}
          \<and> map_of r ''Additional APIs'' = Some (PyList []))
   \<and> (\<exists>r w'. serve (sample_collaborators True (Some ''http://localhost:3000'') [''run'']
                   True) sample_world
               (sample_args\<lparr>track := False, enable_local_cache := True,
                  local_cache_only := False\<rparr>)
             = (Inr r, w')
          \<and> set [''run''] \<subseteq> {''run''}
          \<and> map_of r ''Additional APIs'' = Some PyNone)"
proof -
  let ?c2 = "sample_collaborators True (Some ''http://localhost:3000'') [''run'', ''run''] True"
  let ?c1 = "sample_collaborators True (Some ''http://localhost:3000'') [''run''] True"
  let ?a = "sample_args\<lparr>track := False, enable_local_cache := True, local_cache_only := False\<rparr>"
  let ?mdl = "sample_handle ''eos3b5e''"
  let ?served = "(sample_handle ''eos3b5e'')\<lparr>url := Some ''http://localhost:3000''\<rparr>"
  obtain r2 w2 where ret2: "serve ?c2 sample_world ?a = (Inr r2, w2)"
    by (simp add: sample_serve_plain)
  obtain r1 w1 where ret1: "serve ?c1 sample_world ?a = (Inr r1, w1)"
    by (simp add: sample_serve_plain)
  have m2: "constructed_model ?c2 ?a = Inr ?mdl" and m1: "constructed_model ?c1 ?a = Inr ?mdl"
    by (simp_all add: constructed_model_def sample_collaborators_def sample_args_def)
  have v2: "is_valid ?c2 ?mdl = Inr (True, ?mdl)" and v1: "is_valid ?c1 ?mdl = Inr (True, ?mdl)"
    by (simp_all add: sample_collaborators_def)
  have s2: "mdl_serve ?c2 ?mdl (track_runs_of ?a) = Inr ?served"
    and s1: "mdl_serve ?c1 ?mdl (track_runs_of ?a) = Inr ?served"
    by (simp_all add: sample_collaborators_def)
  have g2: "get_apis ?c2 ?served = Inr ([''run'', ''run''], ?served)"
    and g1: "get_apis ?c1 ?served = Inr ([''run''], ?served)"
    by (simp_all add: sample_collaborators_def)
  have only2: "set [''run'', ''run''] \<subseteq> {''run''}" and only1: "set [''run''] \<subseteq> {''run''}"
    by simp_all
  from only_run_entries_give_empty_list [OF ret2 m2 v2 s2 g2 only2]
  have "map_of r2 ''Additional APIs'' = Some (PyList [])" by simp
  moreover from only_run_entries_give_empty_list [OF ret1 m1 v1 s1 g1 only1]
  have "map_of r1 ''Additional APIs'' = Some PyNone" by simp
  ultimately show ?thesis using ret2 ret1 only2 only1 by blast
qed

text \<open>
  C10. The dictionary of a call that returns has the nine keys "Model ID", "URL", "SRV",
  "Session", "Cache Fetching Mode", "Local Cache", "Tracking", "Default API" and
  "Additional APIs", each once; "Additional APIs" is always among them, bound to \<open>None\<close>
  when no additional list was built.
\<close>

theorem result_has_nine_keys:
  assumes "serve c w a = (Inr r, w')"
  shows "map fst r = [''Model ID'', ''URL'', ''SRV'', ''Session'', ''Cache Fetching Mode'',
                      ''Local Cache'', ''Tracking'', ''Default API'', ''Additional APIs'']
       \<and> distinct (map fst r)
       \<and> (\<exists>mdl checked served apis listed.
             constructed_model c a = Inr mdl
           \<and> is_valid c mdl = Inr (True, checked)
           \<and> mdl_serve c checked (track_runs_of a) = Inr served
           \<and> get_apis c served = Inr (apis, listed)
           \<and> map_of r ''Additional APIs''
               = Some (case additional_apis_of apis of None \<Rightarrow> PyNone
                       | Some names \<Rightarrow> PyList names))"
  using assms
  by (elim serve_returns) (auto simp: constructed_model_def result_dict_def)

theorem result_has_nine_keys_witness:
  "\<exists>r w'. serve (sample_collaborators True (Some ''http://localhost:3000'') [''run''] True)
             sample_world (sample_args\<lparr>track := False, enable_local_cache := True, local_cache_only := False\<rparr>)
            = (Inr r, w')
         \<and> map fst r = [''Model ID'', ''URL'', ''SRV'', ''Session'', ''Cache Fetching Mode'',
                        ''Local Cache'', ''Tracking'', ''Default API'', ''Additional APIs'']
         \<and> map_of r ''Additional APIs'' = Some PyNone"
proof -
  let ?c = "sample_collaborators True (Some ''http://localhost:3000'') [''run''] True"
  let ?a = "sample_args\<lparr>track := False, enable_local_cache := True, local_cache_only := False\<rparr>"
  obtain r w' where ret: "serve ?c sample_world ?a = (Inr r, w')"
    by (simp add: sample_serve_plain)
  from result_has_nine_keys [OF ret] obtain apis where
    "map fst r = [''Model ID'', ''URL'', ''SRV'', ''Session'', ''Cache Fetching Mode'',
                  ''Local Cache'', ''Tracking'', ''Default API'', ''Additional APIs'']"
    "get_apis ?c = (\<lambda>mdl. Inr (apis, mdl))"
    "map_of r ''Additional APIs''
       = Some (case additional_apis_of apis of None \<Rightarrow> PyNone | Some names \<Rightarrow> PyList names)"
    by (auto simp: sample_collaborators_def)
  then have "map fst r = [''Model ID'', ''URL'', ''SRV'', ''Session'', ''Cache Fetching Mode'',
                  ''Local Cache'', ''Tracking'', ''Default API'', ''Additional APIs'']"
    and "map_of r ''Additional APIs'' = Some PyNone"
    by (auto simp: sample_collaborators_def fun_eq_iff additional_apis_of_def)
  with ret show ?thesis
    by (intro exI [of _ r] exI [of _ w'] conjI)
qed

end
